theory Spec2Isabelle
  imports Complex_Main
begin

section \<open>Python floats\<close>

text \<open>
  The program (equation4tensor.py) computes with Python floats. A finite float is
  modelled by the real number it stands for: rounding, overflow and underflow are outside
  the model. The three non-finite floats are kept, because the arithmetic of the program
  treats them specially: a comparison with NaN is false, and \<open>inf - inf\<close> and
  \<open>inf * 0\<close> are NaN. The two zeros of the floats are one value here; the program cannot
  tell them apart, since a division by either raises.
\<close>

datatype pyfloat = Fin real | PInf | NInf | NaN

datatype error = ZeroDivisionError | ValueError

instantiation pyfloat :: "{plus, uminus, minus, times, abs}"
begin

fun plus_pyfloat :: "pyfloat \<Rightarrow> pyfloat \<Rightarrow> pyfloat" where
  "Fin a + Fin b = Fin (a + b)"
| "Fin a + PInf = PInf"
| "Fin a + NInf = NInf"
| "PInf + Fin b = PInf"
| "PInf + PInf = PInf"
| "PInf + NInf = NaN"
| "NInf + Fin b = NInf"
| "NInf + NInf = NInf"
| "NInf + PInf = NaN"
| "NaN + y = NaN"
| "x + NaN = NaN"

fun uminus_pyfloat :: "pyfloat \<Rightarrow> pyfloat" where
  "- Fin a = Fin (- a)"
| "- PInf = NInf"
| "- NInf = PInf"
| "- NaN = NaN"

definition minus_pyfloat :: "pyfloat \<Rightarrow> pyfloat \<Rightarrow> pyfloat" where
  "minus_pyfloat x y = x + (- y)"

fun times_pyfloat :: "pyfloat \<Rightarrow> pyfloat \<Rightarrow> pyfloat" where
  "Fin a * Fin b = Fin (a * b)"
| "Fin a * PInf = (if a = 0 then NaN else if 0 < a then PInf else NInf)"
| "Fin a * NInf = (if a = 0 then NaN else if 0 < a then NInf else PInf)"
| "PInf * Fin b = (if b = 0 then NaN else if 0 < b then PInf else NInf)"
| "NInf * Fin b = (if b = 0 then NaN else if 0 < b then NInf else PInf)"
| "PInf * PInf = PInf"
| "PInf * NInf = NInf"
| "NInf * PInf = NInf"
| "NInf * NInf = PInf"
| "NaN * y = NaN"
| "x * NaN = NaN"

fun abs_pyfloat :: "pyfloat \<Rightarrow> pyfloat" where
  "abs (Fin a) = Fin (abs a)"
| "abs PInf = PInf"
| "abs NInf = PInf"
| "abs NaN = NaN"

instance ..

end

text \<open>\<open>x < y\<close> on floats: false as soon as one side is NaN.\<close>

fun float_lt :: "pyfloat \<Rightarrow> pyfloat \<Rightarrow> bool" where
  "float_lt (Fin a) (Fin b) = (a < b)"
| "float_lt (Fin a) PInf = True"
| "float_lt NInf (Fin b) = True"
| "float_lt NInf PInf = True"
| "float_lt x y = False"

text \<open>
  \<open>x / y\<close> on floats: Python tests the divisor against zero first and raises
  ZeroDivisionError, whatever the dividend is.
\<close>

fun float_truediv :: "pyfloat \<Rightarrow> pyfloat \<Rightarrow> error + pyfloat" where
  "float_truediv x (Fin b) =
     (if b = 0 then Inl ZeroDivisionError
      else case x of
        Fin a \<Rightarrow> Inr (Fin (a / b))
      | PInf \<Rightarrow> Inr (if 0 < b then PInf else NInf)
      | NInf \<Rightarrow> Inr (if 0 < b then NInf else PInf)
      | NaN \<Rightarrow> Inr NaN)"
| "float_truediv x NaN = Inr NaN"
| "float_truediv (Fin a) y = Inr (Fin 0)"
| "float_truediv NaN y = Inr NaN"
| "float_truediv x y = Inr NaN"

text \<open>\<open>x ** n\<close> for a float \<open>x\<close> and a literal \<open>n\<close>; the program only uses \<open>n = 2\<close>.\<close>

primrec float_pow :: "pyfloat \<Rightarrow> nat \<Rightarrow> pyfloat" where
  "float_pow x 0 = Fin 1"
| "float_pow x (Suc n) = x * float_pow x n"

text \<open>
  \<open>math.sin\<close> and \<open>math.cos\<close> raise ValueError (math domain error) on an
  infinite argument and return NaN on NaN. \<open>math.pi\<close> is taken to be \<open>\<pi>\<close>.
\<close>

fun math_sin :: "pyfloat \<Rightarrow> error + pyfloat" where
  "math_sin (Fin x) = Inr (Fin (sin x))"
| "math_sin NaN = Inr NaN"
| "math_sin x = Inl ValueError"

fun math_cos :: "pyfloat \<Rightarrow> error + pyfloat" where
  "math_cos (Fin x) = Inr (Fin (cos x))"
| "math_cos NaN = Inr NaN"
| "math_cos x = Inl ValueError"

definition math_pi :: pyfloat where
  "math_pi = Fin pi"

text \<open>Sequencing of calls that may raise: the first exception ends the computation.\<close>

definition bind_err :: "error + 'a \<Rightarrow> ('a \<Rightarrow> error + 'b) \<Rightarrow> error + 'b" where
  "bind_err m f = (case m of Inl e \<Rightarrow> Inl e | Inr v \<Rightarrow> f v)"

section \<open>The ratio functions\<close>

text \<open>
  \<open>your_function\<close> (f1) and \<open>another_function\<close> (f2). The trigonometric calls are
  bound in the order the source first makes them; each is pure, so a repeated call gives
  the value of the first.
\<close>

definition your_function :: "pyfloat \<Rightarrow> pyfloat \<Rightarrow> pyfloat \<Rightarrow> pyfloat \<Rightarrow> error + pyfloat" where
  "your_function theta chi r1 r2 =
     bind_err (math_sin theta) (\<lambda>sin_theta.
     bind_err (math_cos chi) (\<lambda>cos_chi.
     bind_err (math_sin chi) (\<lambda>sin_chi.
     bind_err (math_cos theta) (\<lambda>cos_theta.
       let numerator = Fin 4 * float_pow
             (float_pow sin_theta 2 * (r1 * float_pow cos_chi 2 + r2 * float_pow sin_chi 2) +
              float_pow cos_theta 2) 2;
           denominator = float_pow
             (float_pow cos_theta 2 * (r1 * float_pow cos_chi 2 + r2 * float_pow sin_chi 2) +
              (r1 * float_pow sin_chi 2 + r2 * float_pow cos_chi 2) +
              float_pow sin_theta 2) 2
       in float_truediv numerator denominator))))"

definition another_function :: "pyfloat \<Rightarrow> pyfloat \<Rightarrow> pyfloat \<Rightarrow> pyfloat \<Rightarrow> error + pyfloat" where
  "another_function theta chi r1 r2 =
     bind_err (math_sin theta) (\<lambda>sin_theta.
     bind_err (math_cos theta) (\<lambda>cos_theta.
     bind_err (math_cos chi) (\<lambda>cos_chi.
     bind_err (math_sin chi) (\<lambda>sin_chi.
       let numerator = Fin 2 *
             (float_pow sin_theta 2 * float_pow cos_theta 2 *
                float_pow (r1 * float_pow cos_chi 2 + r2 * float_pow sin_chi 2 - Fin 1) 2 +
              float_pow sin_theta 2 * float_pow sin_chi 2 * float_pow cos_chi 2 *
                float_pow (r1 - r2) 2);
           denominator = float_pow
             (float_pow cos_theta 2 * (r1 * float_pow cos_chi 2 + r2 * float_pow sin_chi 2) +
              (r1 * float_pow sin_chi 2 + r2 * float_pow cos_chi 2) +
              float_pow sin_theta 2) 2
       in float_truediv numerator denominator))))"

section \<open>The angle search\<close>

text \<open>\<open>range(start, stop, 1)\<close>.\<close>

definition py_range :: "int \<Rightarrow> int \<Rightarrow> int list" where
  "py_range start stop = [start..stop - 1]"

text \<open>
  \<open>i / 360 * math.pi\<close> for an integer \<open>i\<close>: true division of integers gives a float.
\<close>

definition step_radians :: "int \<Rightarrow> pyfloat" where
  "step_radians i = Fin (real_of_int i / 360) * math_pi"

text \<open>\<open>i / 2\<close> for an integer \<open>i\<close>.\<close>

definition step_degrees :: "int \<Rightarrow> pyfloat" where
  "step_degrees i = Fin (real_of_int i / 2)"

text \<open>
  The inner \<open>for j\<close> loop of \<open>find_angles\<close>, on the steps still to visit. An exception of
  the evaluator leaves the loop (\<open>Inl\<close>); \<open>return i/2, j/2\<close> is \<open>Inr (Some _)\<close>; running
  off the end of the range is \<open>Inr None\<close>.
\<close>

fun chi_loop ::
  "pyfloat \<Rightarrow> pyfloat \<Rightarrow> pyfloat \<Rightarrow> pyfloat \<Rightarrow> pyfloat \<Rightarrow> int \<Rightarrow> int list \<Rightarrow>
     error + (pyfloat \<times> pyfloat) option" where
  "chi_loop r1 r2 target1 target2 tolerance i [] = Inr None"
| "chi_loop r1 r2 target1 target2 tolerance i (j # js) =
     (let theta_value = step_radians i;
          chi_value = step_radians j
      in bind_err (your_function theta_value chi_value r1 r2) (\<lambda>y1.
         bind_err (another_function theta_value chi_value r1 r2) (\<lambda>y2.
           let func1 = y1 - target1;
               func2 = y2 - target2
           in if float_lt (abs func1) tolerance \<and> float_lt (abs func2) tolerance
              then Inr (Some (step_degrees i, step_degrees j))
              else chi_loop r1 r2 target1 target2 tolerance i js)))"

text \<open>The outer \<open>for i\<close> loop; each step runs the inner loop over the whole range.\<close>

fun theta_loop ::
  "pyfloat \<Rightarrow> pyfloat \<Rightarrow> pyfloat \<Rightarrow> pyfloat \<Rightarrow> pyfloat \<Rightarrow> int list \<Rightarrow>
     error + (pyfloat \<times> pyfloat) option" where
  "theta_loop r1 r2 target1 target2 tolerance [] = Inr None"
| "theta_loop r1 r2 target1 target2 tolerance (i # is) =
     (case chi_loop r1 r2 target1 target2 tolerance i (py_range 0 721) of
        Inl e \<Rightarrow> Inl e
      | Inr (Some p) \<Rightarrow> Inr (Some p)
      | Inr None \<Rightarrow> theta_loop r1 r2 target1 target2 tolerance is)"

definition find_angles ::
  "pyfloat \<Rightarrow> pyfloat \<Rightarrow> pyfloat \<Rightarrow> pyfloat \<Rightarrow> pyfloat \<Rightarrow> error + (pyfloat \<times> pyfloat) option" where
  "find_angles r1 r2 target1 target2 tolerance =
     theta_loop r1 r2 target1 target2 tolerance (py_range 0 721)"

section \<open>Vocabulary of the specification\<close>

text \<open>
  The closed forms of the specification, over the reals, written from its words:
  \<open>D\<close>, \<open>f1\<close> and \<open>f2\<close>. They are compared with the program's functions below.
\<close>

definition spec_D :: "real \<Rightarrow> real \<Rightarrow> real \<Rightarrow> real \<Rightarrow> real" where
  "spec_D \<theta> \<chi> r1 r2 =
     (cos \<theta>)\<^sup>2 * (r1 * (cos \<chi>)\<^sup>2 + r2 * (sin \<chi>)\<^sup>2) +
     (r1 * (sin \<chi>)\<^sup>2 + r2 * (cos \<chi>)\<^sup>2) + (sin \<theta>)\<^sup>2"

definition spec_f1 :: "real \<Rightarrow> real \<Rightarrow> real \<Rightarrow> real \<Rightarrow> real" where
  "spec_f1 \<theta> \<chi> r1 r2 =
     4 * ((sin \<theta>)\<^sup>2 * (r1 * (cos \<chi>)\<^sup>2 + r2 * (sin \<chi>)\<^sup>2) + (cos \<theta>)\<^sup>2)\<^sup>2 /
     (spec_D \<theta> \<chi> r1 r2)\<^sup>2"

definition spec_f2 :: "real \<Rightarrow> real \<Rightarrow> real \<Rightarrow> real \<Rightarrow> real" where
  "spec_f2 \<theta> \<chi> r1 r2 =
     2 * ((sin \<theta>)\<^sup>2 * (cos \<theta>)\<^sup>2 * (r1 * (cos \<chi>)\<^sup>2 + r2 * (sin \<chi>)\<^sup>2 - 1)\<^sup>2 +
          (sin \<theta>)\<^sup>2 * (sin \<chi>)\<^sup>2 * (cos \<chi>)\<^sup>2 * (r1 - r2)\<^sup>2) /
     (spec_D \<theta> \<chi> r1 r2)\<^sup>2"

text \<open>
  What happens at the grid point of steps \<open>(i, j)\<close>: \<open>grid_fault\<close> is the exception the
  two evaluator calls of the loop body raise there, if any; \<open>grid_match\<close> is the match
  condition of the loop body (both calls return and both residuals are below the
  tolerance); a point the scan goes past has \<open>passed\<close>. \<open>scan_before\<close> is the order
  of the scan, \<open>steps\<close> the steps of one axis.
\<close>

definition grid_fault :: "pyfloat \<Rightarrow> pyfloat \<Rightarrow> int \<Rightarrow> int \<Rightarrow> error option" where
  "grid_fault r1 r2 i j =
     (case your_function (step_radians i) (step_radians j) r1 r2 of
        Inl e \<Rightarrow> Some e
      | Inr y1 \<Rightarrow>
          (case another_function (step_radians i) (step_radians j) r1 r2 of
             Inl e \<Rightarrow> Some e
           | Inr y2 \<Rightarrow> None))"

definition grid_match ::
  "pyfloat \<Rightarrow> pyfloat \<Rightarrow> pyfloat \<Rightarrow> pyfloat \<Rightarrow> pyfloat \<Rightarrow> int \<Rightarrow> int \<Rightarrow> bool" where
  "grid_match r1 r2 target1 target2 tolerance i j =
     (case your_function (step_radians i) (step_radians j) r1 r2 of
        Inl e \<Rightarrow> False
      | Inr y1 \<Rightarrow>
          (case another_function (step_radians i) (step_radians j) r1 r2 of
             Inl e \<Rightarrow> False
           | Inr y2 \<Rightarrow>
               float_lt (abs (y1 - target1)) tolerance \<and>
               float_lt (abs (y2 - target2)) tolerance))"

definition passed ::
  "pyfloat \<Rightarrow> pyfloat \<Rightarrow> pyfloat \<Rightarrow> pyfloat \<Rightarrow> pyfloat \<Rightarrow> int \<Rightarrow> int \<Rightarrow> bool" where
  "passed r1 r2 target1 target2 tolerance i j =
     (grid_fault r1 r2 i j = None \<and> \<not> grid_match r1 r2 target1 target2 tolerance i j)"

definition scan_before :: "int \<Rightarrow> int \<Rightarrow> int \<Rightarrow> int \<Rightarrow> bool" where
  "scan_before i' j' i j = (i' < i \<or> (i' = i \<and> j' < j))"

definition steps :: "int set" where
  "steps = set (py_range 0 721)"

definition all_passed_before ::
  "pyfloat \<Rightarrow> pyfloat \<Rightarrow> pyfloat \<Rightarrow> pyfloat \<Rightarrow> pyfloat \<Rightarrow> int \<Rightarrow> int \<Rightarrow> bool" where
  "all_passed_before r1 r2 target1 target2 tolerance i j =
     (\<forall>i'\<in>steps. \<forall>j'\<in>steps. scan_before i' j' i j \<longrightarrow> passed r1 r2 target1 target2 tolerance i' j')"

text \<open>
  The grid as one list of steps \<open>(i, j)\<close> in the order of the two nested loops, and the
  search of the specification's design notes: the first point of a list that matches,
  unless an evaluator raises before.
\<close>

definition scan_points :: "(int \<times> int) list" where
  "scan_points = List.product (py_range 0 721) (py_range 0 721)"

fun first_match ::
  "pyfloat \<Rightarrow> pyfloat \<Rightarrow> pyfloat \<Rightarrow> pyfloat \<Rightarrow> pyfloat \<Rightarrow> (int \<times> int) list \<Rightarrow>
     error + (pyfloat \<times> pyfloat) option" where
  "first_match r1 r2 target1 target2 tolerance [] = Inr None"
| "first_match r1 r2 target1 target2 tolerance ((i, j) # ps) =
     (case grid_fault r1 r2 i j of
        Some e \<Rightarrow> Inl e
      | None \<Rightarrow>
          if grid_match r1 r2 target1 target2 tolerance i j
          then Inr (Some (step_degrees i, step_degrees j))
          else first_match r1 r2 target1 target2 tolerance ps)"

text \<open>A float that is not below zero: a finite value \<open>\<ge> 0\<close>, \<open>+inf\<close> or NaN.\<close>

fun not_negative :: "pyfloat \<Rightarrow> bool" where
  "not_negative (Fin a) = (0 \<le> a)"
| "not_negative NInf = False"
| "not_negative x = True"


section \<open>Evaluator lemmas\<close>

lemma float_pow_2: "float_pow x 2 = x * x"
  by (cases x) (simp_all add: numeral_2_eq_2)

lemma your_function_Fin:
  "your_function (Fin \<theta>) (Fin \<chi>) (Fin r1) (Fin r2) =
     (if spec_D \<theta> \<chi> r1 r2 = 0 then Inl ZeroDivisionError
      else Inr (Fin (spec_f1 \<theta> \<chi> r1 r2)))"
  by (simp add: your_function_def bind_err_def float_pow_2 spec_D_def spec_f1_def
      power2_eq_square Let_def)

lemma another_function_Fin:
  "another_function (Fin \<theta>) (Fin \<chi>) (Fin r1) (Fin r2) =
     (if spec_D \<theta> \<chi> r1 r2 = 0 then Inl ZeroDivisionError
      else Inr (Fin (spec_f2 \<theta> \<chi> r1 r2)))"
  by (simp add: another_function_def bind_err_def float_pow_2 spec_D_def spec_f2_def
      power2_eq_square Let_def minus_pyfloat_def)

lemma not_negative_square: "not_negative (x * x)"
  by (cases x) simp_all

lemma not_negative_mult: "not_negative x \<Longrightarrow> not_negative y \<Longrightarrow> not_negative (x * y)"
  by (cases x; cases y) simp_all


lemma not_negative_div:
  "not_negative x \<Longrightarrow> not_negative y \<Longrightarrow> float_truediv x y = Inr z \<Longrightarrow> not_negative z"
  by (cases x; cases y) (auto split: if_splits)

lemma your_function_not_negative:
  assumes "your_function \<theta> \<chi> r1 r2 = Inr y"
  shows "not_negative y"
proof -
  from assms obtain n d where q: "float_truediv (Fin 4 * (n * n)) (d * d) = Inr y"
    by (auto simp: your_function_def bind_err_def Let_def float_pow_2 split: sum.splits)
  have "not_negative (Fin 4 * (n * n))"
    by (intro not_negative_mult not_negative_square) simp
  then show ?thesis
    using not_negative_square q by (rule not_negative_div)
qed


lemma step_radians_eq: "step_radians i = Fin (real_of_int i / 360 * pi)"
  by (simp add: step_radians_def math_pi_def)

lemma spec_D_unit: "spec_D \<theta> \<chi> 1 1 = 2"
proof -
  have "(cos \<chi>)\<^sup>2 + (sin \<chi>)\<^sup>2 = 1" "(sin \<chi>)\<^sup>2 + (cos \<chi>)\<^sup>2 = 1" "(cos \<theta>)\<^sup>2 + (sin \<theta>)\<^sup>2 = 1" by simp_all
  then show ?thesis by (simp add: spec_D_def)
qed

lemma spec_f1_unit: "spec_f1 \<theta> \<chi> 1 1 = 1"
proof -
  have "(cos \<chi>)\<^sup>2 + (sin \<chi>)\<^sup>2 = 1" "(sin \<theta>)\<^sup>2 + (cos \<theta>)\<^sup>2 = 1" by simp_all
  then show ?thesis by (simp add: spec_f1_def spec_D_unit)
qed

lemma spec_f2_unit: "spec_f2 \<theta> \<chi> 1 1 = 0"
proof -
  have "(cos \<chi>)\<^sup>2 + (sin \<chi>)\<^sup>2 = 1" by simp
  then show ?thesis by (simp add: spec_f2_def spec_D_unit)
qed

section \<open>The scan, point by point\<close>

lemma steps_eq: "steps = {0..720}"
  by (simp add: steps_def py_range_def)

lemma grid_match_no_fault:
  "grid_match r1 r2 t1 t2 tol i j \<Longrightarrow> grid_fault r1 r2 i j = None"
  by (simp add: grid_match_def grid_fault_def split: sum.splits)

subsection \<open>Ranges\<close>

lemma upto_split_at:
  assumes "[a..b] = pre @ j # post"
  shows "set pre = {a..<j}" and "a \<le> j" and "j \<le> b"
proof -
  have mem: "j \<in> set [a..b]" using assms by simp
  then show "a \<le> j" "j \<le> b" by simp_all
  have srt: "sorted (pre @ j # post)" and dst: "distinct (pre @ j # post)"
    using assms sorted_upto [of a b] distinct_upto [of a b] by simp_all
  have lo: "\<forall>x\<in>set pre. x < j"
    using srt dst by (auto simp: sorted_append less_le)
  have hi: "\<forall>x\<in>set post. j < x"
    using srt dst by (auto simp: sorted_append less_le)
  have all: "set pre \<union> {j} \<union> set post = {a..b}"
    using arg_cong [OF assms, of set] by auto
  show "set pre = {a..<j}"
  proof (rule set_eqI)
    fix x
    show "x \<in> set pre \<longleftrightarrow> x \<in> {a..<j}"
    proof
      assume x: "x \<in> set pre"
      then have "x \<in> {a..b}" using all by blast
      with x lo show "x \<in> {a..<j}" by auto
    next
      assume x: "x \<in> {a..<j}"
      then have "x \<in> {a..b}" using \<open>j \<le> b\<close> by auto
      then have "x \<in> set pre \<union> {j} \<union> set post" using all by simp
      with x hi show "x \<in> set pre" by auto
    qed
  qed
qed

lemma upto_split_mid:
  "a \<le> j \<Longrightarrow> j \<le> b \<Longrightarrow> \<exists>pre post. [a..b] = pre @ j # post \<and> set pre = {a..<j}"
proof -
  assume "a \<le> j" "j \<le> b"
  then have "[a..b] = [a..j - 1] @ j # [j + 1..b]" by (rule upto_split3)
  moreover have "set [a..j - 1] = {a..<j}" by auto
  ultimately show ?thesis by blast
qed

subsection \<open>The inner loop\<close>

lemma chi_loop_Cons:
  "chi_loop r1 r2 t1 t2 tol i (j # js) =
     (case grid_fault r1 r2 i j of
        Some e \<Rightarrow> Inl e
      | None \<Rightarrow>
          if grid_match r1 r2 t1 t2 tol i j then Inr (Some (step_degrees i, step_degrees j))
          else chi_loop r1 r2 t1 t2 tol i js)"
  by (simp add: grid_fault_def grid_match_def bind_err_def Let_def split: sum.splits)

lemma chi_loop_passed:
  "\<forall>j\<in>set pre. passed r1 r2 t1 t2 tol i j \<Longrightarrow>
   chi_loop r1 r2 t1 t2 tol i (pre @ js) = chi_loop r1 r2 t1 t2 tol i js"
  by (induction pre) (simp_all add: chi_loop_Cons passed_def del: chi_loop.simps(2))

lemma chi_loop_None:
  "chi_loop r1 r2 t1 t2 tol i js = Inr None \<longleftrightarrow> (\<forall>j\<in>set js. passed r1 r2 t1 t2 tol i j)"
  by (induction js)
    (auto simp add: chi_loop_Cons passed_def simp del: chi_loop.simps(2) split: option.splits)

lemma chi_loop_match:
  "js = pre @ j # post \<Longrightarrow> \<forall>j'\<in>set pre. passed r1 r2 t1 t2 tol i j' \<Longrightarrow>
   grid_match r1 r2 t1 t2 tol i j \<Longrightarrow>
   chi_loop r1 r2 t1 t2 tol i js = Inr (Some (step_degrees i, step_degrees j))"
  by (simp add: chi_loop_passed chi_loop_Cons grid_match_no_fault del: chi_loop.simps(2))

lemma chi_loop_fault:
  "js = pre @ j # post \<Longrightarrow> \<forall>j'\<in>set pre. passed r1 r2 t1 t2 tol i j' \<Longrightarrow>
   grid_fault r1 r2 i j = Some e \<Longrightarrow>
   chi_loop r1 r2 t1 t2 tol i js = Inl e"
  by (simp add: chi_loop_passed chi_loop_Cons del: chi_loop.simps(2))

subsection \<open>The outer loop\<close>

lemma theta_loop_skip:
  "\<forall>i\<in>set pre. chi_loop r1 r2 t1 t2 tol i (py_range 0 721) = Inr None \<Longrightarrow>
   theta_loop r1 r2 t1 t2 tol (pre @ is) = theta_loop r1 r2 t1 t2 tol is"
  by (induction pre) simp_all

lemma theta_loop_None:
  "theta_loop r1 r2 t1 t2 tol is = Inr None \<longleftrightarrow>
     (\<forall>i\<in>set is. chi_loop r1 r2 t1 t2 tol i (py_range 0 721) = Inr None)"
  by (induction "is") (auto split: sum.splits option.splits)

lemma theta_loop_stop:
  "is = pre @ i # post \<Longrightarrow>
   \<forall>i'\<in>set pre. chi_loop r1 r2 t1 t2 tol i' (py_range 0 721) = Inr None \<Longrightarrow>
   chi_loop r1 r2 t1 t2 tol i (py_range 0 721) \<noteq> Inr None \<Longrightarrow>
   theta_loop r1 r2 t1 t2 tol is = chi_loop r1 r2 t1 t2 tol i (py_range 0 721)"
  by (simp add: theta_loop_skip split: sum.splits option.splits)

subsection \<open>The whole scan\<close>

lemma find_angles_None:
  "find_angles r1 r2 t1 t2 tol = Inr None \<longleftrightarrow>
     (\<forall>i\<in>steps. \<forall>j\<in>steps. passed r1 r2 t1 t2 tol i j)"
  by (simp add: find_angles_def theta_loop_None chi_loop_None steps_def)

lemma find_angles_stop:
  assumes i: "i \<in> steps" and j: "j \<in> steps"
    and before: "all_passed_before r1 r2 t1 t2 tol i j"
    and np: "\<not> passed r1 r2 t1 t2 tol i j"
  shows "find_angles r1 r2 t1 t2 tol =
     (case grid_fault r1 r2 i j of
        Some e \<Rightarrow> Inl e
      | None \<Rightarrow> Inr (Some (step_degrees i, step_degrees j)))"
proof -
  let ?R = "py_range 0 721"
  have R: "?R = [0..720]" by (simp add: py_range_def)
  from i obtain prei posti where si: "?R = prei @ i # posti" and pi: "set prei = {0..<i}"
    using upto_split_mid [of 0 i 720] by (auto simp: steps_eq R)
  from j obtain prej postj where sj: "?R = prej @ j # postj" and pj: "set prej = {0..<j}"
    using upto_split_mid [of 0 j 720] by (auto simp: steps_eq R)
  have rows: "\<forall>i'\<in>set prei. chi_loop r1 r2 t1 t2 tol i' ?R = Inr None"
  proof
    fix i' assume "i' \<in> set prei"
    with pi i have i': "i' \<in> steps" "i' < i" by (auto simp: steps_eq)
    with before have "\<forall>j'\<in>steps. passed r1 r2 t1 t2 tol i' j'"
      by (simp add: all_passed_before_def scan_before_def)
    then show "chi_loop r1 r2 t1 t2 tol i' ?R = Inr None"
      by (simp add: chi_loop_None steps_def)
  qed
  have cols: "\<forall>j'\<in>set prej. passed r1 r2 t1 t2 tol i j'"
  proof
    fix j' assume "j' \<in> set prej"
    with pj j have "j' \<in> steps" "j' < j" by (auto simp: steps_eq)
    with before i show "passed r1 r2 t1 t2 tol i j'"
      by (simp add: all_passed_before_def scan_before_def)
  qed
  have row: "chi_loop r1 r2 t1 t2 tol i ?R =
     (case grid_fault r1 r2 i j of
        Some e \<Rightarrow> Inl e
      | None \<Rightarrow> Inr (Some (step_degrees i, step_degrees j)))"
  proof (cases "grid_fault r1 r2 i j")
    case None
    with np have "grid_match r1 r2 t1 t2 tol i j" by (simp add: passed_def)
    from chi_loop_match [OF sj cols this] None show ?thesis by simp
  next
    case (Some e)
    from chi_loop_fault [OF sj cols this] Some show ?thesis by simp
  qed
  then have "chi_loop r1 r2 t1 t2 tol i ?R \<noteq> Inr None"
    by (simp split: option.splits)
  from theta_loop_stop [OF si rows this] row show ?thesis
    by (simp add: find_angles_def)
qed

lemma first_stop:
  assumes "\<not> (\<forall>i\<in>steps. \<forall>j\<in>steps. passed r1 r2 t1 t2 tol i j)"
  shows "\<exists>i\<in>steps. \<exists>j\<in>steps. all_passed_before r1 r2 t1 t2 tol i j \<and> \<not> passed r1 r2 t1 t2 tol i j"
proof -
  let ?R = "py_range 0 721"
  have R: "?R = [0..720]" by (simp add: py_range_def)
  let ?row = "\<lambda>i. \<exists>j\<in>set ?R. \<not> passed r1 r2 t1 t2 tol i j"
  from assms have "\<exists>i\<in>set ?R. ?row i" by (auto simp: steps_def)
  from split_list_first_prop [OF this] obtain prei i posti where
    si: "?R = prei @ i # posti" and ri: "?row i" and bi: "\<forall>i'\<in>set prei. \<not> ?row i'"
    by blast
  from split_list_first_prop [OF ri] obtain prej j postj where
    sj: "?R = prej @ j # postj" and rj: "\<not> passed r1 r2 t1 t2 tol i j"
    and bj: "\<forall>j'\<in>set prej. \<not> \<not> passed r1 r2 t1 t2 tol i j'"
    by blast
  from si have pi: "set prei = {0..<i}" and i: "i \<in> steps"
    using upto_split_at [of 0 720 prei i posti] by (simp_all add: R steps_eq)
  from sj have pj: "set prej = {0..<j}" and j: "j \<in> steps"
    using upto_split_at [of 0 720 prej j postj] by (simp_all add: R steps_eq)
  have "all_passed_before r1 r2 t1 t2 tol i j"
    unfolding all_passed_before_def scan_before_def
  proof (intro ballI impI)
    fix i' j' assume i': "i' \<in> steps" and j': "j' \<in> steps"
      and b: "i' < i \<or> i' = i \<and> j' < j"
    from b show "passed r1 r2 t1 t2 tol i' j'"
    proof
      assume "i' < i"
      with i' pi have "i' \<in> set prei" by (simp add: steps_eq)
      with bi j' show ?thesis by (auto simp: steps_def)
    next
      assume "i' = i \<and> j' < j"
      with j' pj have "i' = i" "j' \<in> set prej" by (simp_all add: steps_eq)
      with bj show ?thesis by simp
    qed
  qed
  with i j rj show ?thesis by blast
qed

lemma find_angles_Some:
  "find_angles r1 r2 t1 t2 tol = Inr (Some p) \<longleftrightarrow>
     (\<exists>i\<in>steps. \<exists>j\<in>steps. all_passed_before r1 r2 t1 t2 tol i j \<and>
        grid_match r1 r2 t1 t2 tol i j \<and> p = (step_degrees i, step_degrees j))"
proof
  assume res: "find_angles r1 r2 t1 t2 tol = Inr (Some p)"
  then have "\<not> (\<forall>i\<in>steps. \<forall>j\<in>steps. passed r1 r2 t1 t2 tol i j)"
    by (simp add: find_angles_None [symmetric])
  from first_stop [OF this] obtain i j where ij: "i \<in> steps" "j \<in> steps"
    and b: "all_passed_before r1 r2 t1 t2 tol i j" and np: "\<not> passed r1 r2 t1 t2 tol i j"
    by blast
  from find_angles_stop [OF ij b np] res
  have "grid_fault r1 r2 i j = None" "p = (step_degrees i, step_degrees j)"
    by (auto split: option.splits)
  with np ij b show "\<exists>i\<in>steps. \<exists>j\<in>steps. all_passed_before r1 r2 t1 t2 tol i j \<and>
        grid_match r1 r2 t1 t2 tol i j \<and> p = (step_degrees i, step_degrees j)"
    by (auto simp: passed_def)
next
  assume "\<exists>i\<in>steps. \<exists>j\<in>steps. all_passed_before r1 r2 t1 t2 tol i j \<and>
        grid_match r1 r2 t1 t2 tol i j \<and> p = (step_degrees i, step_degrees j)"
  then obtain i j where ij: "i \<in> steps" "j \<in> steps"
    and b: "all_passed_before r1 r2 t1 t2 tol i j" and m: "grid_match r1 r2 t1 t2 tol i j"
    and p: "p = (step_degrees i, step_degrees j)"
    by blast
  from m have np: "\<not> passed r1 r2 t1 t2 tol i j" by (simp add: passed_def)
  from find_angles_stop [OF ij b np] grid_match_no_fault [OF m] p
  show "find_angles r1 r2 t1 t2 tol = Inr (Some p)" by simp
qed


lemma find_angles_no_match:
  assumes "\<forall>i\<in>steps. \<forall>j\<in>steps. \<not> grid_match r1 r2 t1 t2 tol i j"
  shows "find_angles r1 r2 t1 t2 tol \<noteq> Inr (Some p)"
    and "find_angles r1 r2 t1 t2 tol = Inr None \<longleftrightarrow>
           (\<forall>i\<in>steps. \<forall>j\<in>steps. grid_fault r1 r2 i j = None)"
  using assms by (auto simp: find_angles_Some find_angles_None passed_def)

lemma all_passed_before_origin: "all_passed_before r1 r2 t1 t2 tol 0 0"
  by (auto simp: all_passed_before_def scan_before_def steps_eq)

lemma origin_steps: "0 \<in> steps"
  by (simp add: steps_eq)

lemma find_angles_origin_fault:
  assumes "grid_fault r1 r2 0 0 = Some e"
  shows "find_angles r1 r2 t1 t2 tol = Inl e"
proof -
  from assms have "\<not> passed r1 r2 t1 t2 tol 0 0" by (simp add: passed_def)
  from find_angles_stop [OF origin_steps origin_steps all_passed_before_origin this] assms
  show ?thesis by simp
qed

lemma find_angles_origin_match:
  assumes "grid_match r1 r2 t1 t2 tol 0 0"
  shows "find_angles r1 r2 t1 t2 tol = Inr (Some (step_degrees 0, step_degrees 0))"
proof -
  from assms have "\<not> passed r1 r2 t1 t2 tol 0 0" by (simp add: passed_def)
  from find_angles_stop [OF origin_steps origin_steps all_passed_before_origin this]
    grid_match_no_fault [OF assms]
  show ?thesis by simp
qed

subsection \<open>Grid points with finite ratio parameters\<close>

lemma grid_fault_Fin:
  "grid_fault (Fin r1) (Fin r2) i j =
     (if spec_D (real_of_int i / 360 * pi) (real_of_int j / 360 * pi) r1 r2 = 0
      then Some ZeroDivisionError else None)"
  by (simp add: grid_fault_def step_radians_eq your_function_Fin another_function_Fin)

lemma grid_match_Fin:
  "grid_match (Fin r1) (Fin r2) t1 t2 tol i j =
     (spec_D (real_of_int i / 360 * pi) (real_of_int j / 360 * pi) r1 r2 \<noteq> 0 \<and>
      float_lt (abs (Fin (spec_f1 (real_of_int i / 360 * pi) (real_of_int j / 360 * pi) r1 r2) - t1)) tol \<and>
      float_lt (abs (Fin (spec_f2 (real_of_int i / 360 * pi) (real_of_int j / 360 * pi) r1 r2) - t2)) tol)"
  by (simp add: grid_match_def step_radians_eq your_function_Fin another_function_Fin)

lemma grid_fault_unit: "grid_fault (Fin 1) (Fin 1) i j = None"
  by (simp add: grid_fault_Fin spec_D_unit)

lemma grid_match_unit:
  "grid_match (Fin 1) (Fin 1) t1 t2 tol i j =
     (float_lt (abs (Fin 1 - t1)) tol \<and> float_lt (abs (Fin 0 - t2)) tol)"
  by (simp add: grid_match_Fin spec_D_unit spec_f1_unit spec_f2_unit)

lemma grid_fault_origin:
  "grid_fault (Fin r1) (Fin r2) 0 0 = (if r1 + r2 = 0 then Some ZeroDivisionError else None)"
  by (simp add: grid_fault_Fin spec_D_def)

lemma Fin_minus_Fin: "Fin a - Fin b = Fin (a - b)"
  by (simp add: minus_pyfloat_def)

subsection \<open>Tolerances and targets\<close>

lemma float_lt_trans: "float_lt x y \<Longrightarrow> float_lt y z \<Longrightarrow> float_lt x z"
  by (cases x; cases y; cases z) simp_all

lemma grid_match_mono:
  "float_lt T1 T2 \<Longrightarrow> grid_match r1 r2 t1 t2 T1 i j \<Longrightarrow> grid_match r1 r2 t1 t2 T2 i j"
  by (auto simp: grid_match_def split: sum.splits intro: float_lt_trans)

lemma scan_before_linear: "scan_before i j i' j' \<or> (i = i' \<and> j = j') \<or> scan_before i' j' i j"
  by (auto simp: scan_before_def)

lemma low_target_no_match_value:
  "not_negative y \<Longrightarrow> \<not> float_lt (Fin 1000) tol \<Longrightarrow> \<not> float_lt (abs (y - Fin (- 1000))) tol"
  by (cases y; cases tol) (simp_all add: minus_pyfloat_def)

lemma low_target_no_match:
  "\<not> float_lt (Fin 1000) tol \<Longrightarrow> \<not> grid_match r1 r2 (Fin (- 1000)) t2 tol i j"
  by (auto simp: grid_match_def split: sum.splits
      dest!: your_function_not_negative low_target_no_match_value)

lemma find_angles_total:
  "find_angles r1 r2 t1 t2 tol = Inr None \<or> (\<exists>p. find_angles r1 r2 t1 t2 tol = Inr (Some p)) \<or>
   (\<exists>e. find_angles r1 r2 t1 t2 tol = Inl e)"
proof (cases "find_angles r1 r2 t1 t2 tol")
  case (Inl e)
  then show ?thesis by simp
next
  case (Inr v)
  then show ?thesis by (cases v) simp_all
qed





subsection \<open>The scan as one pass over the list of grid points\<close>

lemma first_match_row:
  "first_match r1 r2 t1 t2 tol (map (Pair i) js @ ps) =
     (case chi_loop r1 r2 t1 t2 tol i js of
        Inl e \<Rightarrow> Inl e
      | Inr (Some p) \<Rightarrow> Inr (Some p)
      | Inr None \<Rightarrow> first_match r1 r2 t1 t2 tol ps)"
  by (induction js) (simp_all add: chi_loop_Cons del: chi_loop.simps(2) split: option.splits)

lemma theta_loop_first_match:
  "theta_loop r1 r2 t1 t2 tol is = first_match r1 r2 t1 t2 tol (List.product is (py_range 0 721))"
  by (induction "is") (simp_all add: first_match_row split: sum.splits option.splits)

lemma inj_step_degrees: "inj step_degrees"
  by (simp add: inj_on_def step_degrees_def)

lemma card_step_degrees: "card (step_degrees ` steps) = 721"
  by (simp add: card_image inj_on_subset [OF inj_step_degrees] steps_eq)

lemma length_py_range: "length (py_range 0 721) = 721"
  by (simp add: py_range_def)

section \<open>The evaluator claims\<close>






section \<open>The search claims\<close>

text \<open>
  Claim C1, as amended. If some grid point \<open>(i, j)\<close> satisfies the match condition (both
  residuals strictly below the tolerance), and every grid point at which an evaluator
  raises comes after some matching grid point in the scan order, then \<open>find_angles\<close> returns
  \<open>(i/2, j/2)\<close> for the first matching \<open>(i, j)\<close> in theta-major order (smallest \<open>i\<close>, then
  smallest \<open>j\<close>), and the match condition holds at the returned point.
\<close>

theorem find_angles_first_match:
  assumes some: "\<exists>i\<in>steps. \<exists>j\<in>steps. grid_match r1 r2 target1 target2 tolerance i j"
    and faults_later: "\<forall>i'\<in>steps. \<forall>j'\<in>steps. grid_fault r1 r2 i' j' \<noteq> None \<longrightarrow>
          (\<exists>i\<in>steps. \<exists>j\<in>steps. grid_match r1 r2 target1 target2 tolerance i j \<and>
             scan_before i j i' j')"
  shows "\<exists>i\<in>steps. \<exists>j\<in>steps.
           find_angles r1 r2 target1 target2 tolerance = Inr (Some (step_degrees i, step_degrees j)) \<and>
           grid_match r1 r2 target1 target2 tolerance i j \<and>
           (\<forall>i'\<in>steps. \<forall>j'\<in>steps. grid_match r1 r2 target1 target2 tolerance i' j' \<longrightarrow>
              \<not> scan_before i' j' i j)"
proof -
  from some have "\<not> (\<forall>i\<in>steps. \<forall>j\<in>steps. passed r1 r2 target1 target2 tolerance i j)"
    by (auto simp: passed_def)
  from first_stop [OF this] obtain i j where ij: "i \<in> steps" "j \<in> steps"
    and b: "all_passed_before r1 r2 target1 target2 tolerance i j"
    and np: "\<not> passed r1 r2 target1 target2 tolerance i j"
    by blast
  have least: "\<not> scan_before i' j' i j"
    if "i' \<in> steps" "j' \<in> steps" "grid_match r1 r2 target1 target2 tolerance i' j'" for i' j'
    using that b by (auto simp: all_passed_before_def passed_def)
  have nf: "grid_fault r1 r2 i j = None"
  proof (rule ccontr)
    assume "grid_fault r1 r2 i j \<noteq> None"
    with faults_later ij obtain i0 j0 where "i0 \<in> steps" "j0 \<in> steps"
      "grid_match r1 r2 target1 target2 tolerance i0 j0" "scan_before i0 j0 i j"
      by blast
    with least show False by blast
  qed
  with np have m: "grid_match r1 r2 target1 target2 tolerance i j"
    by (simp add: passed_def)
  from find_angles_stop [OF ij b np] nf
  have "find_angles r1 r2 target1 target2 tolerance = Inr (Some (step_degrees i, step_degrees j))"
    by simp
  with ij m least show ?thesis by blast
qed

theorem find_angles_first_match_witness:
  "grid_match (Fin 1) (Fin 1) (Fin 1) (Fin 0) (Fin (1 / 20)) 0 0 \<and>
   (\<forall>i j. grid_fault (Fin 1) (Fin 1) i j = None) \<and>
   find_angles (Fin 1) (Fin 1) (Fin 1) (Fin 0) (Fin (1 / 20)) = Inr (Some (Fin 0, Fin 0))"
proof -
  let ?m = "grid_match (Fin 1) (Fin 1) (Fin 1) (Fin 0) (Fin (1 / 20))"
  have m0: "?m 0 0"
    by (simp add: grid_match_unit Fin_minus_Fin)
  then have some: "\<exists>i\<in>steps. \<exists>j\<in>steps. ?m i j"
    using origin_steps by blast
  have later: "\<forall>i'\<in>steps. \<forall>j'\<in>steps. grid_fault (Fin 1) (Fin 1) i' j' \<noteq> None \<longrightarrow>
      (\<exists>i\<in>steps. \<exists>j\<in>steps. ?m i j \<and> scan_before i j i' j')"
    by (simp add: grid_fault_unit)
  from find_angles_first_match [OF some later] obtain i j where ij: "i \<in> steps" "j \<in> steps"
    and res: "find_angles (Fin 1) (Fin 1) (Fin 1) (Fin 0) (Fin (1 / 20)) =
        Inr (Some (step_degrees i, step_degrees j))"
    and least: "\<forall>i'\<in>steps. \<forall>j'\<in>steps. ?m i' j' \<longrightarrow> \<not> scan_before i' j' i j"
    by blast
  from least m0 origin_steps have "\<not> scan_before 0 0 i j" by blast
  with ij have "i = 0" "j = 0" by (auto simp: scan_before_def steps_eq)
  with res m0 show ?thesis by (simp add: step_degrees_def grid_fault_unit)
qed

text \<open>
  The claim without the condition on raising points fails: with \<open>r1 = 1\<close>, \<open>r2 = -1\<close> the
  grid point \<open>(180, 180)\<close> matches the targets \<open>(1, 0)\<close>, but the denominator is zero at
  \<open>(0, 0)\<close>, the first point of the scan, and \<open>find_angles\<close> raises there.
\<close>

theorem find_angles_first_match_counterexample:
  "grid_match (Fin 1) (Fin (- 1)) (Fin 1) (Fin 0) (Fin (1 / 20)) 180 180 \<and>
   find_angles (Fin 1) (Fin (- 1)) (Fin 1) (Fin 0) (Fin (1 / 20)) = Inl ZeroDivisionError"
proof -
  have a: "real_of_int 180 / 360 * pi = pi / 2" by simp
  have "grid_match (Fin 1) (Fin (- 1)) (Fin 1) (Fin 0) (Fin (1 / 20)) 180 180"
    unfolding grid_match_Fin a
    by (simp add: spec_D_def spec_f1_def spec_f2_def Fin_minus_Fin)
  moreover have "grid_fault (Fin 1) (Fin (- 1)) 0 0 = Some ZeroDivisionError"
    by (simp add: grid_fault_origin)
  then have "find_angles (Fin 1) (Fin (- 1)) (Fin 1) (Fin 0) (Fin (1 / 20)) = Inl ZeroDivisionError"
    by (rule find_angles_origin_fault)
  ultimately show ?thesis by simp
qed

text \<open>
  Claim C5, as amended. \<open>find_angles\<close> returns the no-solution value \<open>None\<close> exactly when
  no grid point satisfies the match condition and no evaluator call raises on the grid
  (the denominator is nonzero at every grid point). When no grid point matches but an
  evaluator raises at some grid point, \<open>find_angles\<close> ends with that exception instead.
  \<open>None\<close> is a value of its own, different from every angle pair, \<open>(0, 0)\<close> included.
\<close>

theorem no_solution_iff:
  "(find_angles r1 r2 target1 target2 tolerance = Inr None \<longleftrightarrow>
      (\<forall>i\<in>steps. \<forall>j\<in>steps.
         \<not> grid_match r1 r2 target1 target2 tolerance i j \<and> grid_fault r1 r2 i j = None)) \<and>
   ((\<forall>i\<in>steps. \<forall>j\<in>steps. \<not> grid_match r1 r2 target1 target2 tolerance i j) \<and>
    (\<exists>i\<in>steps. \<exists>j\<in>steps. grid_fault r1 r2 i j \<noteq> None) \<longrightarrow>
      (\<exists>e. find_angles r1 r2 target1 target2 tolerance = Inl e)) \<and>
   (\<forall>p. (Inr None :: error + (pyfloat \<times> pyfloat) option) \<noteq> Inr (Some p))"
proof (intro conjI impI)
  show "find_angles r1 r2 target1 target2 tolerance = Inr None \<longleftrightarrow>
      (\<forall>i\<in>steps. \<forall>j\<in>steps.
         \<not> grid_match r1 r2 target1 target2 tolerance i j \<and> grid_fault r1 r2 i j = None)"
    by (auto simp: find_angles_None passed_def)
next
  assume h: "(\<forall>i\<in>steps. \<forall>j\<in>steps. \<not> grid_match r1 r2 target1 target2 tolerance i j) \<and>
    (\<exists>i\<in>steps. \<exists>j\<in>steps. grid_fault r1 r2 i j \<noteq> None)"
  then have "find_angles r1 r2 target1 target2 tolerance \<noteq> Inr None"
    by (auto simp: find_angles_None passed_def)
  moreover from h have "find_angles r1 r2 target1 target2 tolerance \<noteq> Inr (Some p)" for p
    by (simp add: find_angles_no_match(1))
  ultimately show "\<exists>e. find_angles r1 r2 target1 target2 tolerance = Inl e"
    using find_angles_total [of r1 r2 target1 target2 tolerance] by blast
next
  show "\<forall>p. (Inr None :: error + (pyfloat \<times> pyfloat) option) \<noteq> Inr (Some p)"
    by simp
qed

theorem no_solution_iff_witness:
  "(\<forall>i j. \<not> grid_match (Fin 1) (Fin 1) (Fin 5) (Fin 5) (Fin (1 / 20)) i j \<and>
          grid_fault (Fin 1) (Fin 1) i j = None) \<and>
   find_angles (Fin 1) (Fin 1) (Fin 5) (Fin 5) (Fin (1 / 20)) = Inr None"
proof -
  have a: "\<not> grid_match (Fin 1) (Fin 1) (Fin 5) (Fin 5) (Fin (1 / 20)) i j \<and>
          grid_fault (Fin 1) (Fin 1) i j = None" for i j
    by (simp add: grid_match_unit grid_fault_unit Fin_minus_Fin)
  then have "\<forall>i\<in>steps. \<forall>j\<in>steps.
      \<not> grid_match (Fin 1) (Fin 1) (Fin 5) (Fin 5) (Fin (1 / 20)) i j \<and>
      grid_fault (Fin 1) (Fin 1) i j = None"
    by blast
  with no_solution_iff [of "Fin 1" "Fin 1" "Fin 5" "Fin 5" "Fin (1 / 20)"]
  have "find_angles (Fin 1) (Fin 1) (Fin 5) (Fin 5) (Fin (1 / 20)) = Inr None"
    by blast
  with a show ?thesis by blast
qed

text \<open>
  The claim as stated fails: with \<open>r1 = 1\<close>, \<open>r2 = -1\<close> and \<open>target1 = -1000\<close> no grid point
  matches, yet \<open>find_angles\<close> does not return \<open>None\<close>: it raises ZeroDivisionError at the
  first grid point.
\<close>

theorem no_solution_iff_counterexample:
  "(\<forall>i j. \<not> grid_match (Fin 1) (Fin (- 1)) (Fin (- 1000)) (Fin 0) (Fin (1 / 20)) i j) \<and>
   find_angles (Fin 1) (Fin (- 1)) (Fin (- 1000)) (Fin 0) (Fin (1 / 20)) = Inl ZeroDivisionError"
proof -
  have "grid_fault (Fin 1) (Fin (- 1)) 0 0 = Some ZeroDivisionError"
    by (simp add: grid_fault_origin)
  then have "find_angles (Fin 1) (Fin (- 1)) (Fin (- 1000)) (Fin 0) (Fin (1 / 20)) =
      Inl ZeroDivisionError"
    by (rule find_angles_origin_fault)
  then show ?thesis by (simp add: low_target_no_match)
qed

text \<open>
  Claim C9, as amended. With \<open>target1 = -1000\<close> and a tolerance that is not above 1000
  (the default 0.05 for one), \<open>find_angles\<close> never returns an angle pair, whatever
  \<open>r1\<close>, \<open>r2\<close> and \<open>target2\<close> are; it returns \<open>None\<close> exactly when no evaluator call raises
  on the grid.
\<close>

theorem target_below_range:
  assumes "\<not> float_lt (Fin 1000) tolerance"
  shows "(\<forall>p. find_angles r1 r2 (Fin (- 1000)) target2 tolerance \<noteq> Inr (Some p)) \<and>
         (find_angles r1 r2 (Fin (- 1000)) target2 tolerance = Inr None \<longleftrightarrow>
            (\<forall>i\<in>steps. \<forall>j\<in>steps. grid_fault r1 r2 i j = None))"
proof -
  from assms
  have "\<forall>i\<in>steps. \<forall>j\<in>steps. \<not> grid_match r1 r2 (Fin (- 1000)) target2 tolerance i j"
    by (simp add: low_target_no_match)
  from find_angles_no_match [OF this] show ?thesis by blast
qed

theorem target_below_range_witness:
  "\<not> float_lt (Fin 1000) (Fin (1 / 20)) \<and>
   find_angles (Fin 1) (Fin 1) (Fin (- 1000)) (Fin 0) (Fin (1 / 20)) = Inr None"
proof -
  have t: "\<not> float_lt (Fin 1000) (Fin (1 / 20))" by simp
  from target_below_range [OF t, of "Fin 1" "Fin 1" "Fin 0"] t show ?thesis
    by (simp add: grid_fault_unit)
qed

text \<open>
  The claim as stated fails in two ways: a tolerance of 2000 accepts the first grid
  point for \<open>r1 = r2 = 1\<close>, and for \<open>r1 = 2\<close>, \<open>r2 = -2\<close> the denominator is zero at the
  first grid point, where \<open>find_angles\<close> raises instead of returning \<open>None\<close>.
\<close>

theorem target_below_range_counterexample:
  "find_angles (Fin 1) (Fin 1) (Fin (- 1000)) (Fin 0) (Fin 2000) = Inr (Some (Fin 0, Fin 0)) \<and>
   find_angles (Fin 2) (Fin (- 2)) (Fin (- 1000)) (Fin 0) (Fin (1 / 20)) = Inl ZeroDivisionError"
proof -
  have "grid_match (Fin 1) (Fin 1) (Fin (- 1000)) (Fin 0) (Fin 2000) 0 0"
    by (simp add: grid_match_unit Fin_minus_Fin)
  from find_angles_origin_match [OF this]
  have a: "find_angles (Fin 1) (Fin 1) (Fin (- 1000)) (Fin 0) (Fin 2000) = Inr (Some (Fin 0, Fin 0))"
    by (simp add: step_degrees_def)
  have "grid_fault (Fin 2) (Fin (- 2)) 0 0 = Some ZeroDivisionError"
    by (simp add: grid_fault_origin)
  from find_angles_origin_fault [OF this] a show ?thesis by simp
qed

text \<open>
  Claim C7. If \<open>T1 < T2\<close> and \<open>find_angles\<close> returns an angle pair with tolerance \<open>T1\<close>,
  then with the same \<open>r1\<close>, \<open>r2\<close>, \<open>target1\<close>, \<open>target2\<close> and tolerance \<open>T2\<close> it returns an
  angle pair too.
\<close>

theorem tolerance_monotone:
  assumes lt: "float_lt T1 T2"
    and res: "find_angles r1 r2 target1 target2 T1 = Inr (Some p)"
  shows "\<exists>q. find_angles r1 r2 target1 target2 T2 = Inr (Some q)"
proof -
  from res obtain i j where ij: "i \<in> steps" "j \<in> steps"
    and b1: "all_passed_before r1 r2 target1 target2 T1 i j"
    and m1: "grid_match r1 r2 target1 target2 T1 i j"
    by (auto simp: find_angles_Some)
  from grid_match_mono [OF lt m1] have m2: "grid_match r1 r2 target1 target2 T2 i j" .
  with ij have "\<not> (\<forall>i\<in>steps. \<forall>j\<in>steps. passed r1 r2 target1 target2 T2 i j)"
    by (auto simp: passed_def)
  from first_stop [OF this] obtain i' j' where ij': "i' \<in> steps" "j' \<in> steps"
    and b2: "all_passed_before r1 r2 target1 target2 T2 i' j'"
    and np: "\<not> passed r1 r2 target1 target2 T2 i' j'"
    by blast
  from b2 ij m2 have "\<not> scan_before i j i' j'"
    by (auto simp: all_passed_before_def passed_def)
  with scan_before_linear [of i j i' j']
  have "(i = i' \<and> j = j') \<or> scan_before i' j' i j" by blast
  then have nf: "grid_fault r1 r2 i' j' = None"
  proof
    assume "i = i' \<and> j = j'"
    with grid_match_no_fault [OF m1] show ?thesis by simp
  next
    assume "scan_before i' j' i j"
    with b1 ij' show ?thesis by (auto simp: all_passed_before_def passed_def)
  qed
  from find_angles_stop [OF ij' b2 np] nf show ?thesis by simp
qed

theorem tolerance_monotone_witness:
  "float_lt (Fin (1 / 20)) (Fin (1 / 10)) \<and>
   find_angles (Fin 1) (Fin 1) (Fin 1) (Fin 0) (Fin (1 / 20)) = Inr (Some (Fin 0, Fin 0)) \<and>
   (\<exists>q. find_angles (Fin 1) (Fin 1) (Fin 1) (Fin 0) (Fin (1 / 10)) = Inr (Some q))"
proof -
  have lt: "float_lt (Fin (1 / 20)) (Fin (1 / 10))" by simp
  have "grid_match (Fin 1) (Fin 1) (Fin 1) (Fin 0) (Fin (1 / 20)) 0 0"
    by (simp add: grid_match_unit Fin_minus_Fin)
  from find_angles_origin_match [OF this]
  have res: "find_angles (Fin 1) (Fin 1) (Fin 1) (Fin 0) (Fin (1 / 20)) = Inr (Some (Fin 0, Fin 0))"
    by (simp add: step_degrees_def)
  from tolerance_monotone [OF lt res] lt res show ?thesis by blast
qed







text \<open>
  Claim C3, as amended. The search domain of \<open>find_angles\<close> is, for each of theta and chi,
  the 721 grid points \<open>0\<degree>, 0.5\<degree>, 1\<degree>, \<dots>, 360\<degree>\<close>: the integer steps \<open>i, j\<close> in \<open>[0, 720]\<close>,
  where step \<open>i\<close> stands for \<open>i/2\<close> degrees and is converted to radians as \<open>i/360 \<cdot> \<pi>\<close>. The
  scan is a single pass, in theta-major order, over the fixed list of
  \<open>721 \<times> 721 = 519841\<close> grid points; no angle lies outside \<open>[0\<degree>, 360\<degree>]\<close>, and every pair
  returned is a point of the grid.
\<close>

theorem search_domain:
  "find_angles r1 r2 target1 target2 tolerance =
     first_match r1 r2 target1 target2 tolerance scan_points \<and>
   set scan_points = steps \<times> steps \<and> distinct scan_points \<and>
   length (py_range 0 721) = 721 \<and> length scan_points = 519841 \<and>
   card (step_degrees ` steps) = 721 \<and>
   (\<forall>i\<in>steps. 0 \<le> i \<and> i \<le> 720 \<and>
      step_degrees i = Fin (real_of_int i / 2) \<and>
      0 \<le> real_of_int i / 2 \<and> real_of_int i / 2 \<le> 360 \<and>
      step_radians i = Fin (real_of_int i / 360 * pi) \<and>
      real_of_int i / 360 * pi = real_of_int i / 2 * pi / 180) \<and>
   (\<forall>p. find_angles r1 r2 target1 target2 tolerance = Inr (Some p) \<longrightarrow>
      p \<in> (\<lambda>(i, j). (step_degrees i, step_degrees j)) ` set scan_points)"
proof (intro conjI)
  show "find_angles r1 r2 target1 target2 tolerance =
     first_match r1 r2 target1 target2 tolerance scan_points"
    by (simp add: find_angles_def theta_loop_first_match scan_points_def)
  show sp: "set scan_points = steps \<times> steps"
    by (simp add: scan_points_def steps_def)
  show "distinct scan_points"
    by (simp add: scan_points_def py_range_def distinct_product)
  show "length (py_range 0 721) = 721" by (rule length_py_range)
  show "length scan_points = 519841"
    by (simp add: scan_points_def length_py_range)
  show "card (step_degrees ` steps) = 721" by (rule card_step_degrees)
  show "\<forall>i\<in>steps. 0 \<le> i \<and> i \<le> 720 \<and>
      step_degrees i = Fin (real_of_int i / 2) \<and>
      0 \<le> real_of_int i / 2 \<and> real_of_int i / 2 \<le> 360 \<and>
      step_radians i = Fin (real_of_int i / 360 * pi) \<and>
      real_of_int i / 360 * pi = real_of_int i / 2 * pi / 180"
    by (simp add: steps_eq step_degrees_def step_radians_eq)
  show "\<forall>p. find_angles r1 r2 target1 target2 tolerance = Inr (Some p) \<longrightarrow>
      p \<in> (\<lambda>(i, j). (step_degrees i, step_degrees j)) ` set scan_points"
    unfolding sp by (auto simp: find_angles_Some)
qed

theorem search_domain_witness:
  "720 \<in> steps \<and> step_degrees 720 = Fin 360 \<and> step_radians 720 = Fin (2 * pi) \<and>
   find_angles (Fin 1) (Fin 1) (Fin 1) (Fin 0) (Fin (1 / 20)) =
     first_match (Fin 1) (Fin 1) (Fin 1) (Fin 0) (Fin (1 / 20)) scan_points \<and>
   find_angles (Fin 1) (Fin 1) (Fin 1) (Fin 0) (Fin (1 / 20)) = Inr (Some (Fin 0, Fin 0)) \<and>
   (Fin 0, Fin 0) \<in> (\<lambda>(i, j). (step_degrees i, step_degrees j)) ` set scan_points"
proof -
  have s: "720 \<in> steps" by (simp add: steps_eq)
  have "grid_match (Fin 1) (Fin 1) (Fin 1) (Fin 0) (Fin (1 / 20)) 0 0"
    by (simp add: grid_match_unit Fin_minus_Fin)
  from find_angles_origin_match [OF this]
  have res: "find_angles (Fin 1) (Fin 1) (Fin 1) (Fin 0) (Fin (1 / 20)) = Inr (Some (Fin 0, Fin 0))"
    by (simp add: step_degrees_def)
  note d = search_domain [of "Fin 1" "Fin 1" "Fin 1" "Fin 0" "Fin (1 / 20)"]
  from d s have "step_degrees 720 = Fin (real_of_int 720 / 2)"
    "step_radians 720 = Fin (real_of_int 720 / 360 * pi)"
    by blast+
  moreover from d res
  have "(Fin 0, Fin 0) \<in> (\<lambda>(i, j). (step_degrees i, step_degrees j)) ` set scan_points"
    by blast
  moreover from d have "find_angles (Fin 1) (Fin 1) (Fin 1) (Fin 0) (Fin (1 / 20)) =
     first_match (Fin 1) (Fin 1) (Fin 1) (Fin 0) (Fin (1 / 20)) scan_points"
    by blast
  ultimately show ?thesis using s res by simp
qed

text \<open>
  The count of the claim as stated fails: one axis has 721 distinct angles, not 361.
\<close>

theorem search_domain_counterexample:
  "card (step_degrees ` steps) \<noteq> 361"
  by (simp add: card_step_degrees)

end
